theory Spec2Isabelle
  imports Complex_Main "HOL-Library.Sublist"
begin

section \<open>Strings and host functions\<close>

text \<open>
  A JavaScript string is a sequence of UTF-16 code units and \<open>length\<close>, \<open>substring\<close> and
  \<open>charAt\<close> count code units. The model writes strings as \<^typ>\<open>string\<close>; one \<^typ>\<open>char\<close> stands
  for one code unit in the range U+0000 to U+00FF, so \<^const>\<open>length\<close> is the script's
  \<open>.length\<close> for every Latin-1 text. Text beyond Latin-1 is outside the model.

  \<open>encodeURIComponent\<close> is defined below, after ECMA-262. Three other functions of the
  browser are taken as parameters:
  \<^item> \<open>toLocaleDateString d\<close> is \<open>new Date(d).toLocaleDateString('es-ES', {year: 'numeric',
    month: 'long'})\<close>, which depends on the time zone of the visitor;
  \<^item> \<open>toUpperCase\<close> is \<open>String.prototype.toUpperCase\<close>;
  \<^item> \<open>stringify\<close> is \<open>JSON.stringify\<close> on the structured-data object.
\<close>

definition nl :: string where
  "nl = [CHR 0x0A]"

section \<open>Data model (data.json)\<close>

record social =
  name :: string
  url :: string
  icon :: string

record personal =
  name :: string
  title :: string
  photo :: string
  about :: string
  email :: string
  social :: "social list"

record skill_category =
  category :: string
  items :: "string list"

text \<open>A date is an ISO string or absent (\<open>None\<close> is \<open>undefined\<close> or \<open>null\<close>).\<close>

record experience =
  title :: string
  company :: string
  location :: string
  startDate :: "string option"
  endDate :: "string option"
  description :: string
  tags :: "string list"

record certification =
  name :: string
  issuer :: string
  date :: "string option"
  url :: string

record event =
  title :: string
  type :: string
  location :: string
  date :: "string option"
  url :: string

record academic =
  degree :: string
  institution :: string
  startDate :: "string option"
  endDate :: "string option"

text \<open>The object built by \<open>generateJsonLd\<close>; \<open>ld_context\<close> is its key \<open>@context\<close>,
  \<open>ld_type\<close> its key \<open>@type\<close>.\<close>

record jsonld =
  ld_context :: string
  ld_type :: string
  ld_name :: string
  ld_jobTitle :: string
  ld_url :: string
  ld_email :: string
  ld_image :: string
  ld_sameAs :: "string list"

record host =
  toLocaleDateString :: "string \<Rightarrow> string"
  toUpperCase :: "string \<Rightarrow> string"
  stringify :: "jsonld \<Rightarrow> string"

section \<open>utils\<close>

text \<open>\<open>!dateString\<close> on a value that is a string, \<open>null\<close> or \<open>undefined\<close>: the absent value
  and the empty string are the falsy ones.\<close>

fun truthy :: "string option \<Rightarrow> bool" where
  "truthy None = False"
| "truthy (Some s) = (s \<noteq> [])"

definition formatDate :: "host \<Rightarrow> string option \<Rightarrow> string" where
  "formatDate h dateString =
     (if \<not> truthy dateString then ''Actualidad''
      else toLocaleDateString h (the dateString))"

definition createTimeTag :: "host \<Rightarrow> string option \<Rightarrow> string" where
  \<open>createTimeTag h dateString =
     (if \<not> truthy dateString then ''''
      else let formattedDate = formatDate h dateString
           in ''<time datetime="'' @ the dateString @ ''">'' @ formattedDate @ ''</time>'')\<close>

text \<open>\<open>maxLength\<close> is a JavaScript number; the model takes an integer. \<open>substring(0, m)\<close>
  treats a negative \<open>m\<close> as 0, which is \<^term>\<open>nat m\<close>.\<close>

definition safeTruncate :: "string \<Rightarrow> int \<Rightarrow> string" where
  "safeTruncate text maxLength =
     (if int (length text) \<le> maxLength then text
      else take (nat maxLength) text @ ''...'')"

text \<open>\<open>generateJsonLd\<close> reads \<open>window.location.href\<close>; the model passes it as \<open>href\<close>.\<close>

definition generateJsonLd :: "string \<Rightarrow> personal \<Rightarrow> jsonld" where
  "generateJsonLd href personalData =
     (let sameAsUrls = map social.url (social personalData)
      in \<lparr> ld_context = ''https://schema.org'',
           ld_type = ''Person'',
           ld_name = personal.name personalData,
           ld_jobTitle = personal.title personalData,
           ld_url = href,
           ld_email = email personalData,
           ld_image = photo personalData,
           ld_sameAs = sameAsUrls \<rparr>)"

section \<open>The page\<close>

datatype js_error = Error string | TypeError | SyntaxError

datatype console_entry = ConsoleError string js_error | ConsoleWarn string

text \<open>The values of the five inputs of the contact form.\<close>

record contact_form =
  name :: string
  email :: string
  subject :: string
  message :: string
  fax :: string

text \<open>
  The part of the browser the loader, the renderer and the form handler write to.
  \<open>body_html\<close> is \<open>Some m\<close> once \<open>document.body.innerHTML\<close> has been overwritten with \<open>m\<close>;
  \<open>contents\<close> maps the id of a container to the markup (or text) the script assigned to it;
  \<open>submit_listeners\<close> holds, for each listener added to the form, the \<open>personalData\<close> its
  closure captured; \<open>navigations\<close> are the values assigned to \<open>window.location.href\<close>, and
  \<open>href\<close> is the address of the page. The containers named in the script are taken to exist
  in the host markup.
\<close>

record page =
  href :: string
  body_html :: "string option"
  contents :: "string \<rightharpoonup> string"
  console :: "console_entry list"
  form :: contact_form
  submit_listeners :: "personal list"
  alerts :: "string list"
  navigations :: "string list"

section \<open>dataLoader\<close>

text \<open>
  A top-level field of the fetched document as \<open>validateData\<close> sees it: missing
  (\<open>undefined\<close>), present with a falsy value (\<open>null\<close>, \<open>false\<close>, \<open>0\<close>, the empty string), or
  present with a value of the section's type (an object or an array, both truthy, the empty
  array included).
\<close>

datatype 'a field = Missing | Falsy | Value 'a

fun is_truthy :: "'a field \<Rightarrow> bool" where
  "is_truthy (Value v) = True"
| "is_truthy Missing = False"
| "is_truthy Falsy = False"

record document =
  personal :: "personal field"
  skills :: "skill_category list field"
  experience :: "experience list field"
  certifications :: "certification list field"
  events :: "event list field"
  academic :: "academic list field"

text \<open>What \<open>response.json()\<close> resolves to: \<open>null\<close>, another value that is not an object
  with fields (a number, a string, a boolean, an array), or an object.\<close>

datatype json_root = JsonNull | JsonNonObject | JsonObject document

record response =
  ok :: bool
  statusText :: string
  json :: "js_error + json_root"

datatype fetch_outcome = Rejected js_error | Resolved response

definition DATA_PATH :: string where
  "DATA_PATH = ''data.json''"

text \<open>Reading a property of \<open>null\<close> throws a TypeError; on any other value that is not an
  object the three properties are \<open>undefined\<close>.\<close>

definition validateData :: "json_root \<Rightarrow> js_error + unit" where
  "validateData data =
     (case data of
        JsonNull \<Rightarrow> Inl TypeError
      | JsonNonObject \<Rightarrow>
          Inl (Error ''Estructura de data.json incompleta. Faltan secciones clave (personal, skills, experience).'')
      | JsonObject d \<Rightarrow>
          if \<not> is_truthy (personal d) \<or> \<not> is_truthy (skills d) \<or> \<not> is_truthy (experience d)
          then Inl (Error ''Estructura de data.json incompleta. Faltan secciones clave (personal, skills, experience).'')
          else Inr ())"

text \<open>The \<open>try\<close> block of \<open>loadData\<close>.\<close>

definition loadData_try :: "fetch_outcome \<Rightarrow> js_error + json_root" where
  "loadData_try outcome =
     (case outcome of
        Rejected e \<Rightarrow> Inl e
      | Resolved response \<Rightarrow>
          if \<not> ok response
          then Inl (Error (''Error al cargar '' @ DATA_PATH @ '': '' @ statusText response))
          else (case json response of
                  Inl e \<Rightarrow> Inl e
                | Inr data \<Rightarrow>
                    (case validateData data of
                       Inl e \<Rightarrow> Inl e
                     | Inr u \<Rightarrow> Inr data)))"

definition errorMarkup :: string where
  \<open>errorMarkup = ''<p style="text-align: center; padding: 50px;">Error al cargar el portfolio. Por favor, revisa el archivo data.json.</p>''\<close>

text \<open>\<open>loadData\<close> returns the data, or \<open>null\<close> (\<open>None\<close>) from its \<open>catch\<close> block.\<close>

definition loadData :: "fetch_outcome \<Rightarrow> page \<Rightarrow> json_root option \<times> page" where
  "loadData outcome s =
     (case loadData_try outcome of
        Inr data \<Rightarrow> (Some data, s)
      | Inl error \<Rightarrow>
          (None,
           s\<lparr> console := console s @
                  [ConsoleError (''Fallo en la carga o validaci'' @ [CHR 0xF3] @ ''n de datos:'') error],
              body_html := Some errorMarkup \<rparr>))"

section \<open>renderer\<close>

definition renderTag :: "string \<Rightarrow> string" where
  \<open>renderTag text = ''<span class="tag">'' @ text @ ''</span>''\<close>

text \<open>The envelope sign of the e-mail link is the pair of code units U+2709 U+FE0F, beyond
  the code units of the model; it is written as the six bytes the source file holds.\<close>

definition envelope :: string where
  "envelope = [CHR 0xE2, CHR 0x9C, CHR 0x89, CHR 0xEF, CHR 0xB8, CHR 0x8F]"

definition socialLink :: "host \<Rightarrow> social \<Rightarrow> string" where
  \<open>socialLink h s =
     nl @
     ''            <a href="'' @ social.url s @ ''" target="_blank" rel="noopener noreferrer" class="social-link" aria-label="'' @ social.name s @ ''">'' @ nl @
     ''                <!-- Icono simulado. En un proyecto real se usar'' @ [CHR 0xED] @ ''a SVG o una librer'' @ [CHR 0xED] @ ''a de iconos -->'' @ nl @
     ''                <span aria-hidden="true">'' @ toUpperCase h (take 1 (icon s)) @ ''</span> '' @ social.name s @ nl @
     ''            </a>'' @ nl @
     ''        ''\<close>

text \<open>\<open>contactInfo.innerHTML += m\<close> reads back the markup just assigned; the model takes
  what is read back to be that markup.\<close>

definition renderPersonal :: "host \<Rightarrow> personal \<Rightarrow> page \<Rightarrow> page" where
  \<open>renderPersonal h data s =
     (let header =
            nl @
            ''            <img src="'' @ photo data @ ''" alt="Foto de perfil de '' @ personal.name data @ ''" class="profile__photo" loading="lazy">'' @ nl @
            ''            <h1 class="profile__name">'' @ personal.name data @ ''</h1>'' @ nl @
            ''            <p class="profile__title">'' @ personal.title data @ ''</p>'' @ nl @
            ''        '';
          aboutContent = ''<p>'' @ about data @ ''</p>'';
          contactInfo = concat (map (socialLink h) (social data));
          contactInfo' = contactInfo @
            nl @
            ''            <a href="mailto:'' @ personal.email data @ ''" class="social-link" aria-label="Enviar correo electr'' @ [CHR 0xF3] @ ''nico a '' @ personal.name data @ ''">'' @ nl @
            ''                <span aria-hidden="true">'' @ envelope @ ''</span> Email'' @ nl @
            ''            </a>'' @ nl @
            ''        '';
          jsonLdScript = stringify h (generateJsonLd (href s) data)
      in s\<lparr> contents := (contents s)
               (''main-header'' \<mapsto> header,
                ''about-content'' \<mapsto> aboutContent,
                ''contact-info'' \<mapsto> contactInfo',
                ''json-ld-data'' \<mapsto> jsonLdScript) \<rparr>)\<close>

definition skillsCard :: "skill_category \<Rightarrow> string" where
  \<open>skillsCard c =
     nl @
     ''            <div class="card skills__category" role="group" aria-labelledby="skill-cat-'' @ category c @ ''">'' @ nl @
     ''                <h3 id="skill-cat-'' @ category c @ ''" class="card__title">'' @ category c @ ''</h3>'' @ nl @
     ''                <div class="skills__category-list">'' @ nl @
     ''                    '' @ concat (map renderTag (items c)) @ nl @
     ''                </div>'' @ nl @
     ''            </div>'' @ nl @
     ''        ''\<close>

definition renderSkills :: "skill_category list \<Rightarrow> page \<Rightarrow> page" where
  "renderSkills skills' s =
     s\<lparr> contents := (contents s)(''skills-content'' \<mapsto> concat (map skillsCard skills')) \<rparr>"

text \<open>The callback of \<open>experience.map\<close> in \<open>renderExperience\<close>, with its two arguments.
  A parameter whose name is a field of \<open>document\<close> is written with a prime.\<close>

definition timelineItem :: "host \<Rightarrow> experience \<Rightarrow> nat \<Rightarrow> string" where
  \<open>timelineItem h job index =
     (let sideClass = (if index mod 2 = 0 then '''' else ''timeline__item--right'');
          startDate = createTimeTag h (experience.startDate job);
          endDate = (if truthy (experience.endDate job)
                     then createTimeTag h (experience.endDate job) else ''Actualidad'')
      in nl @
         ''                <div class="timeline__item '' @ sideClass @ ''" role="listitem">'' @ nl @
         ''                    <div class="timeline__content card">'' @ nl @
         ''                        <h3 class="card__title">'' @ experience.title job @ ''</h3>'' @ nl @
         ''                        <p class="card__subtitle">'' @ company job @ '' - '' @ experience.location job @ ''</p>'' @ nl @
         ''                        <p class="timeline__date">'' @ startDate @ '' - '' @ endDate @ ''</p>'' @ nl @
         ''                        <p>'' @ description job @ ''</p>'' @ nl @
         ''                        <div class="tags-container" aria-label="Tecnolog'' @ [CHR 0xED] @ ''as utiliBzadas">'' @ nl @
         ''                            '' @ concat (map renderTag (tags job)) @ nl @
         ''                        </div>'' @ nl @
         ''                    </div>'' @ nl @
         ''                </div>'' @ nl @
         ''            '')\<close>

text \<open>The array \<open>experience.map((job, index) => ...)\<close>: one entry per job, the callback
  applied to the job and its index.\<close>

definition timelineItems :: "host \<Rightarrow> experience list \<Rightarrow> string list" where
  "timelineItems h experience' =
     map (\<lambda>(index, job). timelineItem h job index) (enumerate 0 experience')"

definition renderExperience :: "host \<Rightarrow> experience list \<Rightarrow> page \<Rightarrow> page" where
  "renderExperience h experience' s =
     s\<lparr> contents := (contents s)
           (''experience-timeline'' \<mapsto> concat (timelineItems h experience')) \<rparr>"

definition certificationCard :: "host \<Rightarrow> certification \<Rightarrow> string" where
  \<open>certificationCard h cert =
     nl @
     ''            <a href="'' @ certification.url cert @ ''" target="_blank" rel="noopener noreferrer" class="card" role="listitem">'' @ nl @
     ''                <h3 class="card__title">'' @ certification.name cert @ ''</h3>'' @ nl @
     ''                <p class="card__subtitle">'' @ issuer cert @ ''</p>'' @ nl @
     ''                <p class="timeline__date">'' @ createTimeTag h (certification.date cert) @ ''</p>'' @ nl @
     ''            </a>'' @ nl @
     ''        ''\<close>

definition renderCertifications :: "host \<Rightarrow> certification list \<Rightarrow> page \<Rightarrow> page" where
  "renderCertifications h certifications' s =
     s\<lparr> contents := (contents s)
           (''certifications-cards'' \<mapsto> concat (map (certificationCard h) certifications')) \<rparr>"

definition eventItem :: "host \<Rightarrow> event \<Rightarrow> string" where
  \<open>eventItem h event =
     nl @
     ''            <div class="list-item" role="listitem">'' @ nl @
     ''                <div class="list-item__header">'' @ nl @
     ''                    <h4 class="list-item__title">'' @ nl @
     ''                        <a href="'' @ event.url event @ ''" target="_blank" rel="noopener noreferrer">'' @ event.title event @ ''</a>'' @ nl @
     ''                    </h4>'' @ nl @
     ''                    <p class="list-item__date">'' @ createTimeTag h (event.date event) @ ''</p>'' @ nl @
     ''                </div>'' @ nl @
     ''                <p class="list-item__subtitle">'' @ event.type event @ '' en '' @ event.location event @ ''</p>'' @ nl @
     ''            </div>'' @ nl @
     ''        ''\<close>

definition renderEvents :: "host \<Rightarrow> event list \<Rightarrow> page \<Rightarrow> page" where
  "renderEvents h events' s =
     s\<lparr> contents := (contents s)(''events-list'' \<mapsto> concat (map (eventItem h) events')) \<rparr>"

text \<open>The callback of \<open>academic.map\<close> in \<open>renderAcademic\<close>.\<close>

definition academicItem :: "host \<Rightarrow> academic \<Rightarrow> string" where
  \<open>academicItem h item =
     (let startDate = createTimeTag h (academic.startDate item);
          endDate = createTimeTag h (academic.endDate item)
      in nl @
         ''                <div class="list-item" role="listitem">'' @ nl @
         ''                    <div class="list-item__header">'' @ nl @
         ''                        <h4 class="list-item__title">'' @ degree item @ ''</h4>'' @ nl @
         ''                        <p class="list-item__date">'' @ startDate @ '' - '' @ endDate @ ''</p>'' @ nl @
         ''                    </div>'' @ nl @
         ''                    <p class="list-item__subtitle">'' @ institution item @ ''</p>'' @ nl @
         ''                </div>'' @ nl @
         ''            '')\<close>

definition renderAcademic :: "host \<Rightarrow> academic list \<Rightarrow> page \<Rightarrow> page" where
  "renderAcademic h academic' s =
     s\<lparr> contents := (contents s)(''academic-list'' \<mapsto> concat (map (academicItem h) academic')) \<rparr>"

definition contactFormMarkup :: string where
  \<open>contactFormMarkup =
     nl @
     ''            <div class="form-group">'' @ nl @
     ''                <label for="name">Tu Nombre:</label>'' @ nl @
     ''                <input type="text" id="name" name="name" required aria-required="true">'' @ nl @
     ''            </div>'' @ nl @
     ''            <div class="form-group">'' @ nl @
     ''                <label for="email">Tu Email:</label>'' @ nl @
     ''                <input type="email" id="email" name="email" required aria-required="true">'' @ nl @
     ''            </div>'' @ nl @
     ''            <div class="form-group">'' @ nl @
     ''                <label for="subject">Asunto:</label>'' @ nl @
     ''                <input type="text" id="subject" name="subject" required aria-required="true" value="Consulta de Portfolio">'' @ nl @
     ''            </div>'' @ nl @
     ''            <div class="form-group">'' @ nl @
     ''                <label for="message">Mensaje:</label>'' @ nl @
     ''                <textarea id="message" name="message" required aria-required="true"></textarea>'' @ nl @
     ''            </div>'' @ nl @
     ''            <!-- Honeypot: Campo oculto para bots -->'' @ nl @
     ''            <div class="honeypot">'' @ nl @
     ''                <label for="fax">No rellenar:</label>'' @ nl @
     ''                <input type="text" id="fax" name="fax" tabindex="-1" autocomplete="off">'' @ nl @
     ''            </div>'' @ nl @
     ''            <button type="submit" class="button">Enviar Mensaje (Simulado)</button>'' @ nl @
     ''        ''\<close>

text \<open>The values the inputs of \<open>contactFormMarkup\<close> start with, which \<open>form.reset()\<close>
  restores: all empty but the subject, whose \<open>value\<close> attribute is set.\<close>

definition form_defaults :: contact_form where
  "form_defaults =
     \<lparr> name = '''', email = '''', subject = ''Consulta de Portfolio'', message = '''', fax = '''' \<rparr>"

definition reset :: "page \<Rightarrow> page" where
  "reset s = s\<lparr> form := form_defaults \<rparr>"

subsection \<open>encodeURIComponent and decodeURIComponent\<close>

text \<open>
  The two functions of ECMA-262 on the strings of the model. A character that is a letter,
  a digit or one of \<open>- _ . ! ~ * ' ( )\<close> stays; any other is replaced by the escapes \<open>%XX\<close> of
  the bytes of its UTF-8 encoding: one byte below U+0080, two from U+0080 to U+00FF.
  No string of the model holds a lone surrogate, on which \<open>encodeURIComponent\<close> throws.
\<close>

definition uriUnescaped :: "char \<Rightarrow> bool" where
  "uriUnescaped c =
     (c \<in> set (''ABCDEFGHIJKLMNOPQRSTUVWXYZabcdefghijklmnopqrstuvwxyz0123456789-_.!~*()'' @ [CHR 0x27]))"

definition hexDigit :: "nat \<Rightarrow> char" where
  "hexDigit n = ''0123456789ABCDEF'' ! (n mod 16)"

definition percentEncode :: "nat \<Rightarrow> string" where
  "percentEncode b = [CHR ''%'', hexDigit (b div 16), hexDigit (b mod 16)]"

definition utf8 :: "char \<Rightarrow> nat list" where
  "utf8 c = (let cp = (of_char c :: nat)
             in if cp < 128 then [cp] else [192 + cp div 64, 128 + cp mod 64])"

definition encodeChar :: "char \<Rightarrow> string" where
  "encodeChar c = (if uriUnescaped c then [c] else concat (map percentEncode (utf8 c)))"

definition encodeURIComponent :: "string \<Rightarrow> string" where
  "encodeURIComponent s = concat (map encodeChar s)"






subsection \<open>The contact form\<close>

record submit_event =
  defaultPrevented :: bool

text \<open>The listener \<open>renderContactForm\<close> adds to the form, for the \<open>personalData\<close> it captured.\<close>

definition onSubmit :: "personal \<Rightarrow> submit_event \<Rightarrow> page \<Rightarrow> submit_event \<times> page" where
  "onSubmit personalData e s =
     (let e' = e\<lparr> defaultPrevented := True \<rparr>;
          honeypotField = fax (form s)
      in if honeypotField \<noteq> []
         then (e', reset (s\<lparr> console := console s @
                                [ConsoleWarn ''Intento de spam detectado (honeypot).''],
                              alerts := alerts s @
                                [''Mensaje enviado (simulaci'' @ [CHR 0xF3] @ ''n). Gracias por tu inter'' @ [CHR 0xE9] @ ''s.''] \<rparr>))
         else
           let name = contact_form.name (form s);
               email = contact_form.email (form s);
               subject = contact_form.subject (form s);
               message = contact_form.message (form s);
               mailtoSubject = encodeURIComponent (''[Portfolio] '' @ subject);
               mailtoBody = encodeURIComponent
                 (''Hola '' @ personal.name personalData @ '','' @ nl @ nl @ ''Mi nombre es '' @ name @ '' ('' @ email @ '').'' @ nl @ nl @ message @ nl @ nl @ ''Saludos.'');
               mailtoLink = ''mailto:'' @ personal.email personalData @ ''?subject='' @ mailtoSubject @ ''&body='' @ mailtoBody
           in (e', reset (s\<lparr> navigations := navigations s @ [mailtoLink] \<rparr>)))"

definition renderContactForm :: "personal \<Rightarrow> page \<Rightarrow> page" where
  "renderContactForm personalData s =
     s\<lparr> contents := (contents s)(''contact-form'' \<mapsto> contactFormMarkup),
        form := form_defaults,
        submit_listeners := submit_listeners s @ [personalData] \<rparr>"

subsection \<open>renderAll\<close>

text \<open>
  One call of \<open>renderAll\<close>: the section renderer runs on the section's value and the
  remaining calls follow. On a section that is not there the renderer throws a TypeError
  (\<open>.map\<close> of \<open>undefined\<close>, of \<open>null\<close> or of a falsy primitive) and the remaining calls do
  not run. \<open>renderAll\<close> runs only on a document that passed \<open>validateData\<close>, whose
  \<open>personal\<close> is a value.
\<close>

definition render_section ::
  "'a field \<Rightarrow> ('a \<Rightarrow> page \<Rightarrow> page) \<Rightarrow> (page \<Rightarrow> js_error option \<times> page) \<Rightarrow>
   page \<Rightarrow> js_error option \<times> page" where
  "render_section f render rest s =
     (case f of Value v \<Rightarrow> rest (render v s) | Missing \<Rightarrow> (Some TypeError, s) | Falsy \<Rightarrow> (Some TypeError, s))"

definition renderAll :: "host \<Rightarrow> document \<Rightarrow> page \<Rightarrow> js_error option \<times> page" where
  "renderAll h data =
     render_section (personal data) (renderPersonal h) (
     render_section (skills data) renderSkills (
     render_section (experience data) (renderExperience h) (
     render_section (certifications data) (renderCertifications h) (
     render_section (events data) (renderEvents h) (
     render_section (academic data) (renderAcademic h) (
     render_section (personal data) renderContactForm (
     \<lambda>s. (None, s))))))))"

section \<open>Page-ready handler\<close>

text \<open>
  The first statements of the handler: \<open>const data = await dataLoader.loadData(); if (data)
  renderer.renderAll(data)\<close>. A value \<open>loadData\<close> returns has passed \<open>validateData\<close> and is an
  object, so the two other cases of \<open>Some\<close> do not arise.
\<close>

definition loadAndRender :: "host \<Rightarrow> fetch_outcome \<Rightarrow> page \<Rightarrow> js_error option \<times> page" where
  "loadAndRender h outcome s =
     (case loadData outcome s of
        (None, s') \<Rightarrow> (None, s')
      | (Some (JsonObject d), s') \<Rightarrow> renderAll h d s'
      | (Some JsonNull, s') \<Rightarrow> (None, s')
      | (Some JsonNonObject, s') \<Rightarrow> (None, s'))"

subsection \<open>Theme\<close>

text \<open>
  The state the theme code reads and writes: whether \<open>body.classList\<close> holds \<open>dark-mode\<close>,
  the \<open>aria-checked\<close> and \<open>role\<close> attributes and the \<open>title\<close> of the toggle control, and
  \<open>localStorage\<close>. The theme code follows \<open>loadAndRender\<close> in the same handler; it is
  modelled on its own, on a page whose toggle control exists, and a write to \<open>localStorage\<close>
  is taken to succeed.
\<close>

record theme_state =
  dark_mode :: bool
  aria_checked :: "string option"
  switch_title :: string
  role :: "string option"
  storage :: "string \<rightharpoonup> string"

definition applyTheme :: "string \<Rightarrow> theme_state \<Rightarrow> theme_state" where
  "applyTheme theme s =
     (let s' = (if theme = ''dark''
                then s\<lparr> dark_mode := True, aria_checked := Some ''true'',
                        switch_title := ''Cambiar a tema claro'' \<rparr>
                else s\<lparr> dark_mode := False, aria_checked := Some ''false'',
                        switch_title := ''Cambiar a tema oscuro'' \<rparr>)
      in s'\<lparr> storage := (storage s')(''theme'' \<mapsto> theme) \<rparr>)"

text \<open>The initial resolution: \<open>savedTheme\<close> is \<open>localStorage.getItem('theme')\<close>, \<open>prefersDark\<close>
  the match of the media query \<open>(prefers-color-scheme: dark)\<close>.\<close>

definition resolveTheme :: "bool \<Rightarrow> theme_state \<Rightarrow> theme_state" where
  "resolveTheme prefersDark s =
     (let savedTheme = storage s ''theme''
      in if truthy savedTheme then applyTheme (the savedTheme) s
         else if prefersDark then applyTheme ''dark'' s
         else applyTheme ''light'' s)"



section \<open>Example data\<close>

text \<open>
  A host for the examples: the date formatter is a table for the two dates of the examples,
  as a browser in the time zone of Madrid prints them, \<open>toUpperCase\<close> maps the letters \<open>a\<close>
  to \<open>z\<close>, and \<open>stringify\<close> writes the eight keys of the object with the string escapes of
  \<open>JSON.stringify\<close>.
\<close>

definition upper_ascii :: "string \<Rightarrow> string" where
  "upper_ascii t =
     map (\<lambda>c. let n = (of_char c :: nat) in if 97 \<le> n \<and> n \<le> 122 then char_of (n - 32) else c) t"

definition json_char :: "char \<Rightarrow> string" where
  \<open>json_char c =
     (let n = (of_char c :: nat)
      in if n = 34 then [CHR 0x5C, CHR 0x22]
         else if n = 92 then [CHR 0x5C, CHR 0x5C]
         else if n = 8 then [CHR 0x5C, CHR ''b'']
         else if n = 9 then [CHR 0x5C, CHR ''t'']
         else if n = 10 then [CHR 0x5C, CHR ''n'']
         else if n = 12 then [CHR 0x5C, CHR ''f'']
         else if n = 13 then [CHR 0x5C, CHR ''r'']
         else if n < 32
         then [CHR 0x5C, CHR ''u'', CHR ''0'', CHR ''0'',
               ''0123456789abcdef'' ! (n div 16), ''0123456789abcdef'' ! (n mod 16)]
         else [c])\<close>

definition json_string :: "string \<Rightarrow> string" where
  "json_string t = [CHR 0x22] @ concat (map json_char t) @ [CHR 0x22]"

fun json_strings :: "string list \<Rightarrow> string" where
  "json_strings [] = []"
| "json_strings [t] = json_string t"
| "json_strings (t # ts) = json_string t @ '','' @ json_strings ts"

definition json_person :: "jsonld \<Rightarrow> string" where
  \<open>json_person ld =
     ''{"@context":'' @ json_string (ld_context ld) @
     '',"@type":'' @ json_string (ld_type ld) @
     '',"name":'' @ json_string (ld_name ld) @
     '',"jobTitle":'' @ json_string (ld_jobTitle ld) @
     '',"url":'' @ json_string (ld_url ld) @
     '',"email":'' @ json_string (ld_email ld) @
     '',"image":'' @ json_string (ld_image ld) @
     '',"sameAs":['' @ json_strings (ld_sameAs ld) @ '']}''\<close>

definition example_host :: host where
  "example_host =
     \<lparr> toLocaleDateString =
         (\<lambda>d. if d = ''2019-09-01'' then ''septiembre de 2019''
              else if d = ''2021-03-15'' then ''marzo de 2021''
              else ''Invalid Date''),
       toUpperCase = upper_ascii,
       stringify = json_person \<rparr>"

definition blank_page :: page where
  "blank_page =
     \<lparr> href = ''https://example.org/'', body_html = None, contents = Map.empty, console = [],
       form = form_defaults, submit_listeners = [], alerts = [], navigations = [] \<rparr>"

definition jane :: personal where
  "jane =
     \<lparr> personal.name = ''Jane Roe'', personal.title = ''Engineer'', photo = ''jane.jpg'',
       about = ''About me'', personal.email = ''jane@example.org'',
       social = [\<lparr> social.name = ''GitHub'', social.url = ''https://github.com/jane'',
                   icon = ''github'' \<rparr>] \<rparr>"

definition current_job :: experience where
  "current_job =
     \<lparr> experience.title = ''Developer'', company = ''Acme'', experience.location = ''Madrid'',
       experience.startDate = Some ''2021-03-15'', experience.endDate = None,
       description = ''Builds things'', tags = [''js''] \<rparr>"

definition ongoing_degree :: academic where
  "ongoing_degree =
     \<lparr> degree = ''Grado en Ingenieria'', institution = ''Universidad'',
       academic.startDate = Some ''2019-09-01'', academic.endDate = None \<rparr>"

text \<open>A document with no \<open>experience\<close> field, and the response that delivers it.\<close>

definition incomplete_document :: document where
  "incomplete_document =
     \<lparr> personal = Value jane, skills = Value [], experience = Missing,
       certifications = Value [], events = Value [], academic = Value [ongoing_degree] \<rparr>"

definition complete_document :: document where
  "complete_document = incomplete_document\<lparr> experience := Value [current_job] \<rparr>"

definition respond :: "document \<Rightarrow> response" where
  "respond d = \<lparr> ok = True, statusText = ''OK'', json = Inr (JsonObject d) \<rparr>"


definition spam_page :: page where
  "spam_page = blank_page\<lparr> form := form_defaults\<lparr> fax := ''bot'' \<rparr> \<rparr>"

definition submit :: submit_event where
  "submit = \<lparr> defaultPrevented = False \<rparr>"

text \<open>Theme states before the handler runs: nothing stored, the empty string stored, and
  a stored value that is neither \<open>light\<close> nor \<open>dark\<close>.\<close>

definition fresh_theme :: theme_state where
  "fresh_theme =
     \<lparr> dark_mode = False, aria_checked = None, switch_title = '''', role = None,
       storage = Map.empty \<rparr>"

definition empty_saved :: theme_state where
  "empty_saved = fresh_theme\<lparr> storage := [''theme'' \<mapsto> ''''] \<rparr>"


definition dark_saved :: theme_state where
  "dark_saved = fresh_theme\<lparr> storage := [''theme'' \<mapsto> ''dark''] \<rparr>"

section \<open>Properties of utils\<close>

text \<open>
  C2. For every string \<open>text\<close> and natural number \<open>n\<close>, \<open>safeTruncate(text, n)\<close> is \<open>text\<close>
  unchanged when \<open>length(text) <= n\<close>; otherwise it is exactly the first \<open>n\<close> characters of
  \<open>text\<close> followed by the three-character marker \<open>...\<close>, and has length \<open>n + 3\<close>.
\<close>

theorem safeTruncate_spec:
  fixes n :: nat
  shows "(length text \<le> n \<longrightarrow> safeTruncate text (int n) = text) \<and>
         (n < length text \<longrightarrow>
            safeTruncate text (int n) = take n text @ ''...'' \<and>
            length (safeTruncate text (int n)) = n + 3)"
  by (simp add: safeTruncate_def)

theorem safeTruncate_spec_witness:
  "length ''portfolio'' \<le> (9::nat) \<and> safeTruncate ''portfolio'' (int 9) = ''portfolio'' \<and>
   (4::nat) < length ''portfolio'' \<and> safeTruncate ''portfolio'' (int 4) = ''port...'' \<and>
   length (safeTruncate ''portfolio'' (int 4)) = 4 + 3"
  using safeTruncate_spec [of "''portfolio''" 9] safeTruncate_spec [of "''portfolio''" 4]
  by simp

text \<open>
  C10. The empty string is treated like an absent date: \<open>formatDate("")\<close> is exactly
  \<open>Actualidad\<close> and \<open>createTimeTag("")\<close> is the empty string, the results for \<open>null\<close>,
  because both functions test falsiness.
\<close>

theorem empty_date_is_absent:
  "formatDate h (Some '''') = ''Actualidad'' \<and>
   createTimeTag h (Some '''') = '''' \<and>
   formatDate h (Some '''') = formatDate h None \<and>
   createTimeTag h (Some '''') = createTimeTag h None"
  by (simp add: formatDate_def createTimeTag_def)

section \<open>Properties of the data loader\<close>

lemma loadData_failure:
  assumes "loadData_try outcome = Inl e"
  shows "loadData outcome s =
           (None, s\<lparr> console := console s @
                         [ConsoleError (''Fallo en la carga o validaci'' @ [CHR 0xF3] @ ''n de datos:'') e],
                     body_html := Some errorMarkup \<rparr>)"
  using assms by (simp add: loadData_def)

lemma loadAndRender_failure:
  assumes "loadData_try outcome = Inl e"
  shows "loadAndRender h outcome s =
           (None, s\<lparr> console := console s @
                         [ConsoleError (''Fallo en la carga o validaci'' @ [CHR 0xF3] @ ''n de datos:'') e],
                     body_html := Some errorMarkup \<rparr>)"
  using assms by (simp add: loadAndRender_def loadData_def)

text \<open>A value that \<open>loadData\<close> returns is an object whose three validated sections are
  values, and the page is untouched.\<close>

lemma loadData_success:
  assumes "loadData outcome s = (Some data, s')"
  shows "s' = s \<and>
         (\<exists>d p sk ex. data = JsonObject d \<and> personal d = Value p \<and> skills d = Value sk \<and>
            experience d = Value ex)"
proof -
  from assms have ok: "loadData_try outcome = Inr data" and s': "s' = s"
    by (auto simp: loadData_def split: sum.splits)
  from ok obtain r where r: "outcome = Resolved r" "json r = Inr data" "validateData data = Inr ()"
    by (auto simp: loadData_try_def split: fetch_outcome.splits if_splits sum.splits)
  from r(3) obtain d where d: "data = JsonObject d"
    "is_truthy (personal d)" "is_truthy (skills d)" "is_truthy (experience d)"
    by (auto simp: validateData_def split: json_root.splits if_splits)
  from d(2) obtain p where "personal d = Value p" by (cases "personal d") auto
  moreover from d(3) obtain sk where "skills d = Value sk" by (cases "skills d") auto
  moreover from d(4) obtain ex where "experience d = Value ex" by (cases "experience d") auto
  ultimately show ?thesis using d(1) s' by blast
qed

text \<open>A root that is \<open>null\<close>, or any other value without fields, takes the same path.\<close>

lemma loadData_not_an_object:
  assumes "json r = Inr v" and "v = JsonNull \<or> v = JsonNonObject"
  shows "\<exists>e. loadData (Resolved r) s =
           (None, s\<lparr> console := console s @
                         [ConsoleError (''Fallo en la carga o validaci'' @ [CHR 0xF3] @ ''n de datos:'') e],
                     body_html := Some errorMarkup \<rparr>)"
proof -
  from assms have "\<exists>e. loadData_try (Resolved r) = Inl e"
    by (auto simp: loadData_try_def validateData_def)
  then show ?thesis using loadData_failure by blast
qed

text \<open>
  C1. For every fetched document in which one of the fields \<open>personal\<close>, \<open>skills\<close>,
  \<open>experience\<close> is missing or falsy, \<open>loadData\<close> takes the fatal path: it returns \<open>null\<close>, logs
  the error and replaces the body of the document by one static message; the handler then
  calls no section renderer: no container is written, no listener is added.
\<close>

theorem loadData_incomplete_is_fatal:
  assumes "json r = Inr (JsonObject d)"
    and "personal d = Missing \<or> personal d = Falsy \<or>
         skills d = Missing \<or> skills d = Falsy \<or>
         experience d = Missing \<or> experience d = Falsy"
  shows "loadData (Resolved r) s =
           (None,
            s\<lparr> console := console s @
                   [ConsoleError (''Fallo en la carga o validaci'' @ [CHR 0xF3] @ ''n de datos:'')
                      (if ok r
                       then Error ''Estructura de data.json incompleta. Faltan secciones clave (personal, skills, experience).''
                       else Error (''Error al cargar data.json: '' @ statusText r))],
               body_html := Some errorMarkup \<rparr>) \<and>
         loadAndRender h (Resolved r) s = (None, snd (loadData (Resolved r) s)) \<and>
         contents (snd (loadAndRender h (Resolved r) s)) = contents s \<and>
         submit_listeners (snd (loadAndRender h (Resolved r) s)) = submit_listeners s \<and>
         body_html (snd (loadAndRender h (Resolved r) s)) = Some errorMarkup"
proof -
  let ?e = "if ok r
            then Error ''Estructura de data.json incompleta. Faltan secciones clave (personal, skills, experience).''
            else Error (''Error al cargar data.json: '' @ statusText r)"
  from assms(2) have "\<not> is_truthy (personal d) \<or> \<not> is_truthy (skills d) \<or> \<not> is_truthy (experience d)"
    by auto
  then have "validateData (JsonObject d) =
      Inl (Error ''Estructura de data.json incompleta. Faltan secciones clave (personal, skills, experience).'')"
    by (simp add: validateData_def)
  with assms(1) have failed: "loadData_try (Resolved r) = Inl ?e"
    by (simp add: loadData_try_def DATA_PATH_def)
  show ?thesis
    unfolding loadData_failure [OF failed] loadAndRender_failure [OF failed] by simp
qed

theorem loadData_incomplete_is_fatal_witness:
  "loadData (Resolved (respond incomplete_document)) blank_page =
     (None,
      blank_page
        \<lparr> console :=
             [ConsoleError (''Fallo en la carga o validaci'' @ [CHR 0xF3] @ ''n de datos:'')
                (Error ''Estructura de data.json incompleta. Faltan secciones clave (personal, skills, experience).'')],
           body_html := Some errorMarkup \<rparr>) \<and>
   loadAndRender example_host (Resolved (respond incomplete_document)) blank_page =
     (None, snd (loadData (Resolved (respond incomplete_document)) blank_page)) \<and>
   contents (snd (loadAndRender example_host (Resolved (respond incomplete_document)) blank_page))
     = Map.empty"
  using loadData_incomplete_is_fatal
    [where r = "respond incomplete_document" and d = incomplete_document and h = example_host
       and s = blank_page]
  by (simp add: respond_def incomplete_document_def blank_page_def)

text \<open>On a complete document the loader leaves the body alone and every renderer runs.\<close>

lemma loadAndRender_complete_document:
  "body_html (snd (loadAndRender example_host (Resolved (respond complete_document)) blank_page)) = None \<and>
   dom (contents (snd (loadAndRender example_host (Resolved (respond complete_document)) blank_page))) =
     {''main-header'', ''about-content'', ''contact-info'', ''json-ld-data'', ''skills-content'',
      ''experience-timeline'', ''certifications-cards'', ''events-list'', ''academic-list'',
      ''contact-form''} \<and>
   submit_listeners (snd (loadAndRender example_host (Resolved (respond complete_document)) blank_page)) =
     [jane] \<and>
   fst (loadAndRender example_host (Resolved (respond complete_document)) blank_page) = None"
  by (simp add: loadAndRender_def loadData_def loadData_try_def validateData_def respond_def
      complete_document_def incomplete_document_def blank_page_def renderAll_def
      render_section_def renderPersonal_def renderSkills_def renderExperience_def
      renderCertifications_def renderEvents_def renderAcademic_def renderContactForm_def
      Let_def insert_commute)

text \<open>The structured data and the social links that \<open>renderPersonal\<close> writes for the
  example.\<close>

lemma renderPersonal_example:
  \<open>contents (renderPersonal example_host jane blank_page) ''json-ld-data'' =
     Some ''{"@context":"https://schema.org","@type":"Person","name":"Jane Roe","jobTitle":"Engineer","url":"https://example.org/","email":"jane@example.org","image":"jane.jpg","sameAs":["https://github.com/jane"]}'' \<and>
   contents (renderPersonal example_host jane blank_page) ''about-content'' =
     Some ''<p>About me</p>'' \<and>
   sublist ''<span aria-hidden="true">G</span> GitHub''
     (the (contents (renderPersonal example_host jane blank_page) ''contact-info''))\<close>
  by code_simp

text \<open>A section renderer that throws stops the remaining ones: with no \<open>events\<close> the first
  four sections are written, the academic list and the contact form are not.\<close>

lemma renderAll_stops_at_missing_section:
  "fst (renderAll example_host (complete_document\<lparr> events := Missing \<rparr>) blank_page) = Some TypeError \<and>
   dom (contents (snd (renderAll example_host (complete_document\<lparr> events := Missing \<rparr>) blank_page))) =
     {''main-header'', ''about-content'', ''contact-info'', ''json-ld-data'', ''skills-content'',
      ''experience-timeline'', ''certifications-cards''}"
  by (simp add: complete_document_def incomplete_document_def blank_page_def renderAll_def
      render_section_def renderPersonal_def renderSkills_def renderExperience_def
      renderCertifications_def Let_def insert_commute)


section \<open>Properties of the renderer\<close>

lemma timelineItems_nth:
  "i < length experience' \<Longrightarrow>
     timelineItems h experience' ! i = timelineItem h (experience' ! i) i"
  by (simp add: timelineItems_def nth_enumerate_eq)

lemma timelineItems_length: "length (timelineItems h experience') = length experience'"
  by (simp add: timelineItems_def)

lemma sublist_concat_member: "x \<in> set xs \<Longrightarrow> sublist x (concat xs)"
proof (induction xs)
  case Nil
  then show ?case by simp
next
  case (Cons y ys)
  show ?case
  proof (cases "x = y")
    case True
    then show ?thesis by simp
  next
    case False
    with Cons have "sublist x (concat ys)" by simp
    moreover have "sublist (concat ys) (y @ concat ys)" by (rule sublist_append_leftI)
    ultimately have "sublist x (y @ concat ys)" by (rule sublist_order.order.trans)
    then show ?thesis by simp
  qed
qed

text \<open>
  C7. For every experience list and every index \<open>i\<close>, the \<open>i\<close>-th timeline entry is on the
  default side when \<open>i\<close> is even (its class attribute is \<open>timeline__item\<close> followed by an
  empty side class) and carries the marker \<open>timeline__item--right\<close> when \<open>i\<close> is odd.
\<close>

theorem timeline_side_by_parity:
  assumes "i < length experience'"
  shows \<open>contents (renderExperience h experience' s) ''experience-timeline''
           = Some (concat (timelineItems h experience')) \<and>
         length (timelineItems h experience') = length experience' \<and>
         timelineItems h experience' ! i = timelineItem h (experience' ! i) i \<and>
         (even i \<longrightarrow>
            prefix (nl @ ''                <div class="timeline__item " role="listitem">'')
              (timelineItems h experience' ! i)) \<and>
         (odd i \<longrightarrow>
            prefix (nl @ ''                <div class="timeline__item timeline__item--right" role="listitem">'')
              (timelineItems h experience' ! i))\<close>
proof -
  have ev: \<open>even i \<Longrightarrow>
      prefix (nl @ ''                <div class="timeline__item " role="listitem">'')
        (timelineItem h job i)\<close> for job
    by (simp add: timelineItem_def Let_def even_iff_mod_2_eq_zero)
  have od: \<open>odd i \<Longrightarrow>
      prefix (nl @ ''                <div class="timeline__item timeline__item--right" role="listitem">'')
        (timelineItem h job i)\<close> for job
    by (simp add: timelineItem_def Let_def even_iff_mod_2_eq_zero)
  show ?thesis
    using timelineItems_nth [OF assms] ev od
    by (simp add: renderExperience_def timelineItems_length)
qed

theorem timeline_side_by_parity_witness:
  \<open>(0::nat) < length [current_job, current_job] \<and> (1::nat) < length [current_job, current_job] \<and>
   prefix (nl @ ''                <div class="timeline__item " role="listitem">'')
     (timelineItems example_host [current_job, current_job] ! 0) \<and>
   prefix (nl @ ''                <div class="timeline__item timeline__item--right" role="listitem">'')
     (timelineItems example_host [current_job, current_job] ! 1)\<close>
proof -
  have l0: "(0::nat) < length [current_job, current_job]"
    and l1: "(1::nat) < length [current_job, current_job]"
    by simp_all
  have e0: "even (0::nat)" and o1: "odd (1::nat)"
    by simp_all
  from timeline_side_by_parity [OF l0, of example_host blank_page] e0
  have p0: \<open>prefix (nl @ ''                <div class="timeline__item " role="listitem">'')
     (timelineItems example_host [current_job, current_job] ! 0)\<close>
    by blast
  from timeline_side_by_parity [OF l1, of example_host blank_page] o1
  have p1: \<open>prefix (nl @ ''                <div class="timeline__item timeline__item--right" role="listitem">'')
     (timelineItems example_host [current_job, current_job] ! 1)\<close>
    by blast
  from l0 l1 p0 p1 show ?thesis by blast
qed

text \<open>An experience entry with no \<open>endDate\<close> (or an empty one): the date range of its
  timeline entry, and so of the timeline, ends with the label \<open>Actualidad\<close>.\<close>

lemma timelineItem_absent_endDate:
  assumes "\<not> truthy (experience.endDate job)"
  shows \<open>sublist (''<p class="timeline__date">'' @ createTimeTag h (experience.startDate job)
                   @ '' - Actualidad</p>'')
           (timelineItem h job i)\<close>
proof -
  define pre where \<open>pre =
     nl @
     ''                <div class="timeline__item '' @ (if i mod 2 = 0 then '''' else ''timeline__item--right'') @ ''" role="listitem">'' @ nl @
     ''                    <div class="timeline__content card">'' @ nl @
     ''                        <h3 class="card__title">'' @ experience.title job @ ''</h3>'' @ nl @
     ''                        <p class="card__subtitle">'' @ company job @ '' - '' @ experience.location job @ ''</p>'' @ nl @
     ''                        ''\<close>
  define suf where \<open>suf =
     nl @
     ''                        <p>'' @ description job @ ''</p>'' @ nl @
     ''                        <div class="tags-container" aria-label="Tecnolog'' @ [CHR 0xED] @ ''as utiliBzadas">'' @ nl @
     ''                            '' @ concat (map renderTag (tags job)) @ nl @
     ''                        </div>'' @ nl @
     ''                    </div>'' @ nl @
     ''                </div>'' @ nl @
     ''            ''\<close>
  have \<open>timelineItem h job i =
          pre @ (''<p class="timeline__date">'' @ createTimeTag h (experience.startDate job)
                 @ '' - Actualidad</p>'') @ suf\<close>
    using assms by (simp add: timelineItem_def Let_def pre_def suf_def)
  then show ?thesis by (metis sublist_appendI)
qed

lemma renderExperience_absent_endDate:
  assumes "job \<in> set experience'" and "\<not> truthy (experience.endDate job)"
  shows \<open>\<exists>html. contents (renderExperience h experience' s) ''experience-timeline'' = Some html \<and>
           sublist (''<p class="timeline__date">'' @ createTimeTag h (experience.startDate job)
                    @ '' - Actualidad</p>'') html\<close>
proof -
  from assms(1) obtain i where i: "i < length experience'" "experience' ! i = job"
    by (auto simp: in_set_conv_nth)
  then have "timelineItem h job i \<in> set (timelineItems h experience')"
    using timelineItems_nth [of i experience' h] timelineItems_length [of h experience']
    by (metis nth_mem)
  then have "sublist (timelineItem h job i) (concat (timelineItems h experience'))"
    by (rule sublist_concat_member)
  with timelineItem_absent_endDate [OF assms(2), of h i]
  have \<open>sublist (''<p class="timeline__date">'' @ createTimeTag h (experience.startDate job)
                  @ '' - Actualidad</p>'') (concat (timelineItems h experience'))\<close>
    by (rule sublist_order.order.trans)
  then show ?thesis by (simp add: renderExperience_def)
qed

text \<open>An academic entry with no \<open>endDate\<close> (or an empty one): the end of its date range is
  empty.\<close>

lemma academicItem_absent_endDate:
  assumes "\<not> truthy (academic.endDate item)"
  shows \<open>sublist (''<p class="list-item__date">'' @ createTimeTag h (academic.startDate item)
                   @ '' - </p>'')
           (academicItem h item)\<close>
proof -
  define pre where \<open>pre =
     nl @
     ''                <div class="list-item" role="listitem">'' @ nl @
     ''                    <div class="list-item__header">'' @ nl @
     ''                        <h4 class="list-item__title">'' @ degree item @ ''</h4>'' @ nl @
     ''                        ''\<close>
  define suf where \<open>suf =
     nl @
     ''                    </div>'' @ nl @
     ''                    <p class="list-item__subtitle">'' @ institution item @ ''</p>'' @ nl @
     ''                </div>'' @ nl @
     ''            ''\<close>
  have \<open>academicItem h item =
          pre @ (''<p class="list-item__date">'' @ createTimeTag h (academic.startDate item)
                 @ '' - </p>'') @ suf\<close>
    using assms by (simp add: academicItem_def createTimeTag_def Let_def pre_def suf_def)
  then show ?thesis by (metis sublist_appendI)
qed

text \<open>
  C3. For every experience entry and every academic entry whose \<open>endDate\<close> is absent, the
  output of the section renderer holds the label \<open>Actualidad\<close> in the date range. The
  experience half is \<open>renderExperience_absent_endDate\<close>. The academic half fails:
  \<open>renderAcademic\<close> on an entry with no \<open>endDate\<close> writes a date range with an empty end and
  no label.
\<close>

theorem renderAcademic_absent_endDate_no_label:
  \<open>academic.endDate ongoing_degree = None \<and>
   contents (renderAcademic example_host [ongoing_degree] blank_page) ''academic-list'' =
     Some (nl @
       ''                <div class="list-item" role="listitem">'' @ nl @
       ''                    <div class="list-item__header">'' @ nl @
       ''                        <h4 class="list-item__title">Grado en Ingenieria</h4>'' @ nl @
       ''                        <p class="list-item__date"><time datetime="2019-09-01">septiembre de 2019</time> - </p>'' @ nl @
       ''                    </div>'' @ nl @
       ''                    <p class="list-item__subtitle">Universidad</p>'' @ nl @
       ''                </div>'' @ nl @
       ''            '') \<and>
   \<not> sublist ''Actualidad''
       (the (contents (renderAcademic example_host [ongoing_degree] blank_page) ''academic-list''))\<close>
proof -
  have a: "academic.endDate ongoing_degree = None"
    by (simp add: ongoing_degree_def)
  have b: \<open>contents (renderAcademic example_host [ongoing_degree] blank_page) ''academic-list'' =
     Some (nl @
       ''                <div class="list-item" role="listitem">'' @ nl @
       ''                    <div class="list-item__header">'' @ nl @
       ''                        <h4 class="list-item__title">Grado en Ingenieria</h4>'' @ nl @
       ''                        <p class="list-item__date"><time datetime="2019-09-01">septiembre de 2019</time> - </p>'' @ nl @
       ''                    </div>'' @ nl @
       ''                    <p class="list-item__subtitle">Universidad</p>'' @ nl @
       ''                </div>'' @ nl @
       ''            '')\<close>
    by (simp add: renderAcademic_def academicItem_def createTimeTag_def formatDate_def
        example_host_def ongoing_degree_def Let_def)
  have c: \<open>\<not> sublist ''Actualidad''
       (the (contents (renderAcademic example_host [ongoing_degree] blank_page) ''academic-list''))\<close>
    by code_simp
  from a b c show ?thesis by blast
qed


section \<open>Properties of the contact form\<close>

subsection \<open>Decoding inverts encoding\<close>








text \<open>An encoded component holds unescaped characters, \<open>%\<close> and hexadecimal digits only,
  so none of the delimiters \<open>?\<close>, \<open>&\<close>, \<open>=\<close> of the link.\<close>

lemma hexDigit_range: "hexDigit n \<in> set ''0123456789ABCDEF''"
  unfolding hexDigit_def by (rule nth_mem) simp

lemma encodeChar_chars:
  assumes "x \<in> set (encodeChar c)"
  shows "uriUnescaped x \<or> x = CHR ''%'' \<or> x \<in> set ''0123456789ABCDEF''"
proof (cases "uriUnescaped c")
  case True
  with assms show ?thesis by (simp add: encodeChar_def)
next
  case False
  with assms obtain b where "x \<in> set (percentEncode b)"
    by (auto simp: encodeChar_def)
  then have "x = CHR ''%'' \<or> x = hexDigit (b div 16) \<or> x = hexDigit (b mod 16)"
    by (simp add: percentEncode_def)
  then show ?thesis using hexDigit_range by blast
qed

lemma encodeURIComponent_chars:
  assumes "x \<in> set (encodeURIComponent s)"
  shows "uriUnescaped x \<or> x = CHR ''%'' \<or> x \<in> set ''0123456789ABCDEF''"
proof -
  from assms obtain c where "x \<in> set (encodeChar c)"
    unfolding encodeURIComponent_def by auto
  then show ?thesis by (rule encodeChar_chars)
qed

lemma encodeURIComponent_no_delimiter:
  "CHR ''?'' \<notin> set (encodeURIComponent s) \<and> CHR ''&'' \<notin> set (encodeURIComponent s) \<and>
   CHR ''='' \<notin> set (encodeURIComponent s)"
proof -
  have q: "\<not> (uriUnescaped (CHR ''?'') \<or> CHR ''?'' = CHR ''%'' \<or> CHR ''?'' \<in> set ''0123456789ABCDEF'')"
    by (simp add: uriUnescaped_def)
  have a: "\<not> (uriUnescaped (CHR ''&'') \<or> CHR ''&'' = CHR ''%'' \<or> CHR ''&'' \<in> set ''0123456789ABCDEF'')"
    by (simp add: uriUnescaped_def)
  have e: "\<not> (uriUnescaped (CHR ''='') \<or> CHR ''='' = CHR ''%'' \<or> CHR ''='' \<in> set ''0123456789ABCDEF'')"
    by (simp add: uriUnescaped_def)
  from q a e show ?thesis
    using encodeURIComponent_chars by blast
qed

subsection \<open>The submit handler\<close>

text \<open>
  C5. For every submission in which the decoy field is not empty, the handler performs no
  mail navigation (nothing is assigned to \<open>window.location.href\<close>), shows the success
  acknowledgment, logs a warning and resets the form.
\<close>

theorem honeypot_submission:
  assumes "fax (form s) \<noteq> []"
  shows "onSubmit personalData e s =
           (e\<lparr> defaultPrevented := True \<rparr>,
            s\<lparr> console := console s @ [ConsoleWarn ''Intento de spam detectado (honeypot).''],
               alerts := alerts s @
                 [''Mensaje enviado (simulaci'' @ [CHR 0xF3] @ ''n). Gracias por tu inter'' @ [CHR 0xE9] @ ''s.''],
               form := form_defaults \<rparr>) \<and>
         navigations (snd (onSubmit personalData e s)) = navigations s"
  using assms by (simp add: onSubmit_def reset_def Let_def)

theorem honeypot_submission_witness:
  "fax (form spam_page) \<noteq> [] \<and>
   onSubmit jane submit spam_page =
     (\<lparr> defaultPrevented = True \<rparr>,
      blank_page
        \<lparr> console := [ConsoleWarn ''Intento de spam detectado (honeypot).''],
           alerts := [''Mensaje enviado (simulaci'' @ [CHR 0xF3] @ ''n). Gracias por tu inter'' @ [CHR 0xE9] @ ''s.''] \<rparr>) \<and>
   navigations (snd (onSubmit jane submit spam_page)) = []"
proof -
  have h: "fax (form spam_page) \<noteq> []"
    by (simp add: spam_page_def)
  from honeypot_submission [OF h, of jane submit] h show ?thesis
    by (simp add: spam_page_def blank_page_def submit_def)
qed




section \<open>Properties of the theme\<close>


lemma applyTheme_dark_mode: "dark_mode (applyTheme t s) = (t = ''dark'')"
  by (simp add: applyTheme_def Let_def)



lemma resolveTheme_saved:
  "storage s ''theme'' = Some t \<Longrightarrow> t \<noteq> [] \<Longrightarrow> resolveTheme prefersDark s = applyTheme t s"
  by (simp add: resolveTheme_def)

lemma resolveTheme_not_saved:
  "storage s ''theme'' = None \<or> storage s ''theme'' = Some [] \<Longrightarrow>
     resolveTheme prefersDark s = applyTheme (if prefersDark then ''dark'' else ''light'') s"
  by (auto simp: resolveTheme_def)

text \<open>
  C4. The initial resolution obeys the precedence: a stored theme value is applied
  regardless of the preference of the operating system; with no stored value and a
  preference for dark, dark is applied; with neither, light. As stated this fails for the
  stored value \<open>""\<close>, which \<open>if (savedTheme)\<close> treats as absent: the preference of the
  operating system then decides.
\<close>

theorem stored_empty_theme_counterexample:
  "storage empty_saved ''theme'' = Some '''' \<and>
   resolveTheme True empty_saved \<noteq> applyTheme '''' empty_saved \<and>
   resolveTheme True empty_saved = applyTheme ''dark'' empty_saved \<and>
   resolveTheme False empty_saved = applyTheme ''light'' empty_saved \<and>
   dark_mode (resolveTheme True empty_saved) \<and>
   \<not> dark_mode (resolveTheme False empty_saved)"
proof -
  have s: "storage empty_saved ''theme'' = Some ''''"
    by (simp add: empty_saved_def)
  then have d: "resolveTheme True empty_saved = applyTheme ''dark'' empty_saved"
    and l: "resolveTheme False empty_saved = applyTheme ''light'' empty_saved"
    by (simp_all add: resolveTheme_not_saved)
  have "dark_mode (applyTheme ''dark'' empty_saved) \<noteq> dark_mode (applyTheme '''' empty_saved)"
    by (simp add: applyTheme_dark_mode)
  then have "applyTheme ''dark'' empty_saved \<noteq> applyTheme '''' empty_saved"
    by metis
  with s d l show ?thesis
    by (simp add: applyTheme_dark_mode)
qed

text \<open>
  C4, amended. A stored theme value that is not empty is applied regardless of the
  preference of the operating system; with no stored value, or the empty string stored,
  dark is applied when the operating system prefers dark and light otherwise. Applying
  \<open>dark\<close> sets the class \<open>dark-mode\<close>, applying any other value removes it.
\<close>

theorem theme_resolution_precedence:
  "(storage s ''theme'' = Some t \<and> t \<noteq> [] \<longrightarrow> resolveTheme prefersDark s = applyTheme t s) \<and>
   ((storage s ''theme'' = None \<or> storage s ''theme'' = Some []) \<and> prefersDark \<longrightarrow>
      resolveTheme prefersDark s = applyTheme ''dark'' s) \<and>
   ((storage s ''theme'' = None \<or> storage s ''theme'' = Some []) \<and> \<not> prefersDark \<longrightarrow>
      resolveTheme prefersDark s = applyTheme ''light'' s) \<and>
   dark_mode (applyTheme t s) = (t = ''dark'')"
  using resolveTheme_saved [of s t prefersDark] resolveTheme_not_saved [of s prefersDark]
  by (auto simp: applyTheme_dark_mode)

theorem theme_resolution_precedence_witness:
  "storage dark_saved ''theme'' = Some ''dark'' \<and> ''dark'' \<noteq> [] \<and>
   resolveTheme False dark_saved = applyTheme ''dark'' dark_saved \<and>
   dark_mode (resolveTheme False dark_saved) \<and>
   storage fresh_theme ''theme'' = None \<and>
   resolveTheme True fresh_theme = applyTheme ''dark'' fresh_theme \<and>
   resolveTheme False fresh_theme = applyTheme ''light'' fresh_theme \<and>
   \<not> dark_mode (resolveTheme False fresh_theme)"
proof -
  have a: "storage dark_saved ''theme'' = Some ''dark''" and b: "''dark'' \<noteq> []"
    and c: "storage fresh_theme ''theme'' = None"
    by (simp_all add: dark_saved_def fresh_theme_def)
  from theme_resolution_precedence [of dark_saved "''dark''" False] a b
  have d: "resolveTheme False dark_saved = applyTheme ''dark'' dark_saved"
    "dark_mode (applyTheme ''dark'' dark_saved)"
    by simp_all
  from theme_resolution_precedence [of fresh_theme "''light''" True] c
  have e: "resolveTheme True fresh_theme = applyTheme ''dark'' fresh_theme"
    by simp
  from theme_resolution_precedence [of fresh_theme "''light''" False] c
  have f: "resolveTheme False fresh_theme = applyTheme ''light'' fresh_theme"
    "\<not> dark_mode (applyTheme ''light'' fresh_theme)"
    by simp_all
  from a b c d e f show ?thesis by simp
qed





section \<open>Properties of generateJsonLd\<close>

text \<open>
  C8. \<open>generateJsonLd\<close> is a pure function of its personal-data argument: two calls with
  equal personal input yield equal objects, with no dependence on ambient state. As stated
  this fails: the function reads \<open>window.location.href\<close>, so the same personal data gives
  different objects at different addresses of the page.
\<close>

theorem generateJsonLd_ambient_counterexample:
  "generateJsonLd ''https://example.org/'' jane \<noteq>
     generateJsonLd ''https://example.org/index.html'' jane \<and>
   ld_url (generateJsonLd ''https://example.org/'' jane) = ''https://example.org/'' \<and>
   ld_url (generateJsonLd ''https://example.org/index.html'' jane) = ''https://example.org/index.html''"
  by (simp add: generateJsonLd_def)

text \<open>
  C8, amended. \<open>generateJsonLd\<close> is a function of its personal-data argument and of the
  address of the page, which it copies into \<open>url\<close>: two calls at the same address whose
  personal data agree (on the name, title, e-mail, photo and social URLs, the fields it
  reads) yield equal objects. It has no page to write to: its result is the object alone.
\<close>

theorem generateJsonLd_determined:
  assumes "personal.name p = personal.name q" and "personal.title p = personal.title q"
    and "personal.email p = personal.email q" and "photo p = photo q"
    and "map social.url (social p) = map social.url (social q)"
  shows "generateJsonLd address p = generateJsonLd address q \<and>
         ld_url (generateJsonLd address p) = address"
  using assms by (simp add: generateJsonLd_def)

theorem generateJsonLd_determined_witness:
  "jane \<noteq> jane\<lparr> about := ''Another text'' \<rparr> \<and>
   generateJsonLd ''https://example.org/'' jane =
     generateJsonLd ''https://example.org/'' (jane\<lparr> about := ''Another text'' \<rparr>) \<and>
   generateJsonLd ''https://example.org/'' jane =
     \<lparr> ld_context = ''https://schema.org'', ld_type = ''Person'', ld_name = ''Jane Roe'',
       ld_jobTitle = ''Engineer'', ld_url = ''https://example.org/'',
       ld_email = ''jane@example.org'', ld_image = ''jane.jpg'',
       ld_sameAs = [''https://github.com/jane''] \<rparr>"
proof -
  have a: "jane \<noteq> jane\<lparr> about := ''Another text'' \<rparr>"
  proof
    assume "jane = jane\<lparr> about := ''Another text'' \<rparr>"
    then have "about jane = about (jane\<lparr> about := ''Another text'' \<rparr>)" by simp
    then show False by (simp add: jane_def)
  qed
  have b: "generateJsonLd ''https://example.org/'' jane =
     generateJsonLd ''https://example.org/'' (jane\<lparr> about := ''Another text'' \<rparr>)"
    using generateJsonLd_determined
      [of jane "jane\<lparr> about := ''Another text'' \<rparr>" "''https://example.org/''"]
    by simp
  have c: "generateJsonLd ''https://example.org/'' jane =
     \<lparr> ld_context = ''https://schema.org'', ld_type = ''Person'', ld_name = ''Jane Roe'',
       ld_jobTitle = ''Engineer'', ld_url = ''https://example.org/'',
       ld_email = ''jane@example.org'', ld_image = ''jane.jpg'',
       ld_sameAs = [''https://github.com/jane''] \<rparr>"
    by (simp add: generateJsonLd_def jane_def)
  from a b c show ?thesis by blast
qed


end
